theory Spec2Isabelle
  imports Complex_Main
begin

section \<open>The compute manager of nova (src/nova/compute/manager.py)\<close>

text \<open>
  \<^verbatim>\<open>ComputeManager\<close> owns no data of its own: every method talks to the database API
  (\<^verbatim>\<open>self.db\<close>, \<^verbatim>\<open>db\<close>), the virtualization driver, the network and volume managers, the
  RPC layer, the clock and the log. None of these is part of the file, so each of them is
  a parameter of the embedding: an oracle that answers a call, given the calls made so
  far. A method is a function from the trace of calls made before it to its outcome
  (an exception or a value) and the trace extended by the calls it made, in order.

  The methods decorated with \<^verbatim>\<open>defer.inlineCallbacks\<close> are generators; the embedding
  takes every collaborator to answer before it returns (a plain value or a Deferred that
  has fired), so that a generator runs from its first line to its end and the
  Deferred it hands back holds its outcome. An exception raised in the body is the
  failure of that Deferred: \<open>Inl\<close> in the outcome. The second decorator,
  \<^verbatim>\<open>exception.wrap_exception\<close>, is applied to the generator function, whose call only
  builds the generator; it is left out.
\<close>

subsection \<open>Records of the database\<close>

text \<open>
  Modelled from the spec: the module \<^verbatim>\<open>nova.compute.power_state\<close> is imported by the
  source and absent from it; these are the four states the spec names.
\<close>

datatype power_state = NOSTATE | RUNNING | SHUTDOWN | SHUTOFF

type_synonym instance_id = string
type_synonym volume_id = string

text \<open>
  Modelled from the spec: the request context is built by the callers; the manager only
  asks it for its elevated variant.
\<close>

record request_context =
  user_id :: string
  is_admin :: bool

definition elevated :: "request_context \<Rightarrow> request_context" where
  "elevated c = c\<lparr>is_admin := True\<rparr>"

text \<open>The keys of a volume row and of an instance row that the manager reads.\<close>

record volume =
  vol_id :: volume_id
  mountpoint :: string

record instance_row =
  name :: string
  state :: power_state
  internal_id :: string
  hostname :: string
  volumes :: "volume list option"

text \<open>\<^verbatim>\<open>instance_ref.get('volumes', []) or []\<close>: a missing or empty entry is no volume.\<close>

definition volumes_of :: "instance_row \<Rightarrow> volume list" where
  "volumes_of instance_ref =
     (case volumes instance_ref of None \<Rightarrow> [] | Some vs \<Rightarrow> vs)"

text \<open>What \<^verbatim>\<open>driver.get_info\<close> returns; the manager reads its \<^verbatim>\<open>'state'\<close> only.\<close>

record driver_info =
  info_state :: power_state

text \<open>The dictionaries the manager passes to \<^verbatim>\<open>db.instance_update\<close>.\<close>

datatype instance_values = Host string | LaunchedAt nat

subsection \<open>Exceptions, calls and the environment\<close>

text \<open>
  \<^verbatim>\<open>exception.Error\<close> and \<^verbatim>\<open>exception.NotFound\<close> with their messages,
  \<^verbatim>\<open>rpc.RemoteError\<close>, and \<open>Failure\<close> for any other exception a collaborator raises.
\<close>

datatype exn =
    Error string
  | NotFound string
  | RemoteError string string string
  | Failure string

datatype level = DEBUG | WARN | ERROR | EXCEPTION

text \<open>
  What a call can return when the manager tests the answer with \<^verbatim>\<open>!=\<close>, \<^verbatim>\<open>if\<close> or
  \<^verbatim>\<open>not\<close>: \<^verbatim>\<open>rpc.call\<close> hands back whatever the peer's method returned, deserialized,
  and \<^verbatim>\<open>driver.live_migration\<close> is not part of the file. The values are those of JSON,
  a number with a fraction being a real.
\<close>

datatype py_value =
    PNone
  | PBool bool
  | PInt int
  | PFloat real
  | PStr string
  | PList "py_value list"
  | PDict "(string \<times> py_value) list"

text \<open>\<^verbatim>\<open>if v\<close>: the truth value of \<open>v\<close>.\<close>

definition truthy :: "py_value \<Rightarrow> bool" where
  "truthy v =
     (case v of
        PNone \<Rightarrow> False
      | PBool b \<Rightarrow> b
      | PInt n \<Rightarrow> n \<noteq> 0
      | PFloat x \<Rightarrow> x \<noteq> 0
      | PStr s \<Rightarrow> s \<noteq> []
      | PList vs \<Rightarrow> vs \<noteq> []
      | PDict kvs \<Rightarrow> kvs \<noteq> [])"

text \<open>
  \<^verbatim>\<open>True == v\<close>: \<^verbatim>\<open>bool\<close> is a subclass of \<^verbatim>\<open>int\<close>, so \<^verbatim>\<open>True\<close> equals the numbers
  \<^verbatim>\<open>1\<close> and \<^verbatim>\<open>1.0\<close> and nothing that is not a number.
\<close>

definition equals_True :: "py_value \<Rightarrow> bool" where
  "equals_True v =
     (case v of
        PBool b \<Rightarrow> b
      | PInt n \<Rightarrow> n = 1
      | PFloat x \<Rightarrow> x = 1
      | _ \<Rightarrow> False)"

text \<open>The two messages the manager sends with \<^verbatim>\<open>rpc.call\<close>.\<close>

datatype rpc_message =
    PreLiveMigration instance_id string
  | NwfilterForInstanceExists instance_id

text \<open>One constructor for each call that leaves the manager, with its arguments.\<close>

datatype event =
    DbInstanceGet request_context instance_id
  | DbInstanceSetState request_context instance_id power_state "string option"
  | DbInstanceUpdate request_context instance_id instance_values
  | DbInstanceDestroy request_context instance_id
  | DbVolumeGet request_context volume_id
  | DbVolumeAttached request_context volume_id instance_id string
  | DbVolumeDetached request_context volume_id
  | DbQueueGetFor request_context string string
  | DriverGetInfo string
  | DriverListInstances
  | DriverSpawn instance_row
  | DriverDestroy instance_row
  | DriverReboot instance_row
  | DriverAttachVolume string string string
  | DriverDetachVolume string string
  | DriverLiveMigration instance_row string
  | NetworkSetupComputeNetwork request_context instance_id
  | VolumeSetupComputeVolume request_context volume_id
  | VolumeRemoveComputeVolume request_context volume_id
  | RpcCall request_context string rpc_message
  | UtcNow
  | Sleep nat
  | Log level string

type_synonym trace = "event list"

text \<open>
  The environment: what a call answers, by the type of its answer, given the calls made
  before it. A collaborator that raises answers \<open>Inl\<close>.
\<close>

record env =
  resp_unit :: "trace \<Rightarrow> event \<Rightarrow> exn + unit"
  resp_value :: "trace \<Rightarrow> event \<Rightarrow> exn + py_value"
  resp_string :: "trace \<Rightarrow> event \<Rightarrow> exn + string"
  resp_names :: "trace \<Rightarrow> event \<Rightarrow> exn + string list"
  resp_instance :: "trace \<Rightarrow> event \<Rightarrow> exn + instance_row"
  resp_volume :: "trace \<Rightarrow> event \<Rightarrow> exn + volume"
  resp_info :: "trace \<Rightarrow> event \<Rightarrow> exn + driver_info"
  resp_time :: "trace \<Rightarrow> nat"

text \<open>
  The attribute \<^verbatim>\<open>self.host\<close> and the flags the manager reads. The default of
  \<^verbatim>\<open>live_migration_timeout\<close> is the number 30, and the method hands the flag to
  \<^verbatim>\<open>range\<close>: an integer.
\<close>

record config =
  host :: string
  compute_topic :: string
  live_migration_timeout :: int

subsection \<open>Sequencing, raising and catching\<close>

type_synonym 'a io = "trace \<Rightarrow> (exn + 'a) \<times> trace"

definition return_io :: "'a \<Rightarrow> 'a io" where
  "return_io a = (\<lambda>t. (Inr a, t))"

definition raise_io :: "exn \<Rightarrow> 'a io" where
  "raise_io e = (\<lambda>t. (Inl e, t))"

definition bind_io :: "'a io \<Rightarrow> ('a \<Rightarrow> 'b io) \<Rightarrow> 'b io" where
  "bind_io m f = (\<lambda>t. case m t of (Inl e, t') \<Rightarrow> (Inl e, t') | (Inr a, t') \<Rightarrow> f a t')"

definition seq_io :: "'a io \<Rightarrow> 'b io \<Rightarrow> 'b io" where
  "seq_io m n = bind_io m (\<lambda>_. n)"

text \<open>\<^verbatim>\<open>try: m  except Exception as exc: h exc\<close>\<close>

definition try_io :: "'a io \<Rightarrow> (exn \<Rightarrow> 'a io) \<Rightarrow> 'a io" where
  "try_io m h = (\<lambda>t. case m t of (Inl e, t') \<Rightarrow> h e t' | (Inr a, t') \<Rightarrow> (Inr a, t'))"

text \<open>
  Calling an \<^verbatim>\<open>inlineCallbacks\<close> method without \<^verbatim>\<open>yield\<close>: its calls are made, and the
  Deferred holding its value or its failure is dropped.
\<close>

definition unyielded :: "'a io \<Rightarrow> unit io" where
  "unyielded m = (\<lambda>t. (Inr (), snd (m t)))"

definition call_unit :: "env \<Rightarrow> event \<Rightarrow> unit io" where
  "call_unit env ev = (\<lambda>t. (resp_unit env t ev, t @ [ev]))"

definition call_value :: "env \<Rightarrow> event \<Rightarrow> py_value io" where
  "call_value env ev = (\<lambda>t. (resp_value env t ev, t @ [ev]))"

definition call_string :: "env \<Rightarrow> event \<Rightarrow> string io" where
  "call_string env ev = (\<lambda>t. (resp_string env t ev, t @ [ev]))"

definition call_names :: "env \<Rightarrow> event \<Rightarrow> string list io" where
  "call_names env ev = (\<lambda>t. (resp_names env t ev, t @ [ev]))"

definition call_instance :: "env \<Rightarrow> event \<Rightarrow> instance_row io" where
  "call_instance env ev = (\<lambda>t. (resp_instance env t ev, t @ [ev]))"

definition call_volume :: "env \<Rightarrow> event \<Rightarrow> volume io" where
  "call_volume env ev = (\<lambda>t. (resp_volume env t ev, t @ [ev]))"

definition call_info :: "env \<Rightarrow> event \<Rightarrow> driver_info io" where
  "call_info env ev = (\<lambda>t. (resp_info env t ev, t @ [ev]))"

definition utcnow :: "env \<Rightarrow> nat io" where
  "utcnow env = (\<lambda>t. (Inr (resp_time env t), t @ [UtcNow]))"

definition sleep :: "nat \<Rightarrow> unit io" where
  "sleep n = (\<lambda>t. (Inr (), t @ [Sleep n]))"

definition logging :: "level \<Rightarrow> string \<Rightarrow> unit io" where
  "logging lvl msg = (\<lambda>t. (Inr (), t @ [Log lvl msg]))"

subsection \<open>\<^verbatim>\<open>_update_state\<close>\<close>

definition update_state :: "env \<Rightarrow> request_context \<Rightarrow> instance_id \<Rightarrow> unit io" where
  "update_state env context instance_id =
     bind_io (call_instance env (DbInstanceGet context instance_id)) (\<lambda>instance_ref.
     bind_io
       (try_io
          (bind_io (call_info env (DriverGetInfo (name instance_ref))) (\<lambda>info.
           return_io (info_state info)))
          (\<lambda>exc. case exc of NotFound _ \<Rightarrow> return_io NOSTATE | _ \<Rightarrow> raise_io exc))
       (\<lambda>state'.
     call_unit env (DbInstanceSetState context instance_id state' None)))"

subsection \<open>\<^verbatim>\<open>run_instance\<close>\<close>

definition run_instance :: "env \<Rightarrow> config \<Rightarrow> request_context \<Rightarrow> instance_id \<Rightarrow> unit io" where
  "run_instance env cfg context0 instance_id =
     (let context = elevated context0 in
      bind_io (call_instance env (DbInstanceGet context instance_id)) (\<lambda>instance_ref.
      bind_io (call_names env DriverListInstances) (\<lambda>names.
      if name instance_ref \<in> set names
      then raise_io (Error ''Instance has already been created'')
      else
        seq_io (logging DEBUG ''instance %s: starting...'')
       (seq_io (call_unit env (NetworkSetupComputeNetwork context instance_id))
       (seq_io (call_unit env (DbInstanceUpdate context instance_id (Host (host cfg))))
       (seq_io (call_unit env
                  (DbInstanceSetState context instance_id NOSTATE (Some ''spawning'')))
       (seq_io
          (try_io
             (seq_io (call_unit env (DriverSpawn instance_ref))
             (bind_io (utcnow env) (\<lambda>now.
              call_unit env (DbInstanceUpdate context instance_id (LaunchedAt now)))))
             (\<lambda>exc.
              seq_io (logging EXCEPTION ''instance %s: Failed to spawn'')
                (call_unit env (DbInstanceSetState context instance_id SHUTDOWN None))))
          (update_state env context instance_id))))))))"

subsection \<open>\<^verbatim>\<open>attach_volume\<close> and \<^verbatim>\<open>detach_volume\<close>\<close>

definition attach_volume ::
  "env \<Rightarrow> request_context \<Rightarrow> instance_id \<Rightarrow> volume_id \<Rightarrow> string \<Rightarrow> bool io" where
  "attach_volume env context0 instance_id volume_id mountpoint' =
     (let context = elevated context0 in
      seq_io (logging DEBUG ''instance %s: attaching volume %s to %s'')
     (bind_io (call_instance env (DbInstanceGet context instance_id)) (\<lambda>instance_ref.
      bind_io (call_string env (VolumeSetupComputeVolume context volume_id)) (\<lambda>dev_path.
      seq_io
        (try_io
           (seq_io
              (call_unit env (DriverAttachVolume (name instance_ref) dev_path mountpoint'))
              (call_unit env (DbVolumeAttached context volume_id instance_id mountpoint')))
           (\<lambda>exc.
            seq_io (logging EXCEPTION ''instance %s: attach failed %s, removing'')
           (seq_io (call_unit env (VolumeRemoveComputeVolume context volume_id))
                   (raise_io exc))))
        (return_io True)))))"

definition detach_volume :: "env \<Rightarrow> request_context \<Rightarrow> instance_id \<Rightarrow> volume_id \<Rightarrow> bool io" where
  "detach_volume env context0 instance_id volume_id =
     (let context = elevated context0 in
      seq_io (logging DEBUG ''instance %s: detaching volume %s'')
     (bind_io (call_instance env (DbInstanceGet context instance_id)) (\<lambda>instance_ref.
      bind_io (call_volume env (DbVolumeGet context volume_id)) (\<lambda>volume_ref.
      bind_io (call_names env DriverListInstances) (\<lambda>names.
      seq_io
        (if name instance_ref \<notin> set names
         then logging WARN ''Detaching volume from unknown instance %s''
         else call_unit env
                (DriverDetachVolume (name instance_ref) (mountpoint volume_ref)))
     (seq_io (call_unit env (VolumeRemoveComputeVolume context volume_id))
     (seq_io (call_unit env (DbVolumeDetached context volume_id))
             (return_io True))))))))"

subsection \<open>\<^verbatim>\<open>terminate_instance\<close>\<close>

text \<open>
  The loop over the volumes calls \<^verbatim>\<open>self.detach_volume\<close> without \<^verbatim>\<open>yield\<close>, with the
  context that is elevated already.
\<close>

primrec detach_volumes :: "env \<Rightarrow> request_context \<Rightarrow> instance_id \<Rightarrow> volume list \<Rightarrow> unit io" where
  "detach_volumes env context instance_id [] = return_io ()"
| "detach_volumes env context instance_id (v # vs) =
     seq_io (unyielded (detach_volume env context instance_id (vol_id v)))
            (detach_volumes env context instance_id vs)"

definition terminate_instance :: "env \<Rightarrow> request_context \<Rightarrow> instance_id \<Rightarrow> unit io" where
  "terminate_instance env context0 instance_id =
     (let context = elevated context0 in
      seq_io (logging DEBUG ''instance %s: terminating'')
     (bind_io (call_instance env (DbInstanceGet context instance_id)) (\<lambda>instance_ref.
      seq_io (detach_volumes env context instance_id (volumes_of instance_ref))
        (if state instance_ref = SHUTOFF
         then
           seq_io (call_unit env (DbInstanceDestroy context instance_id))
             (raise_io
                (Error (''trying to destroy already destroyed instance: '' @ instance_id)))
         else
           seq_io (call_unit env (DriverDestroy instance_ref))
                  (call_unit env (DbInstanceDestroy context instance_id))))))"

subsection \<open>\<^verbatim>\<open>reboot_instance\<close>\<close>

definition reboot_instance :: "env \<Rightarrow> request_context \<Rightarrow> instance_id \<Rightarrow> unit io" where
  "reboot_instance env context0 instance_id =
     (let context = elevated context0 in
      bind_io (call_instance env (DbInstanceGet context instance_id)) (\<lambda>instance_ref.
      seq_io (update_state env context instance_id)
     (seq_io
        (if state instance_ref \<noteq> RUNNING
         then logging WARN
                ''trying to reboot a non-running instance: %s (state: %s excepted: %s)''
         else return_io ())
     (seq_io (logging DEBUG ''instance %s: rebooting'')
     (seq_io (call_unit env
                (DbInstanceSetState context instance_id NOSTATE (Some ''rebooting'')))
     (seq_io (call_unit env (DriverReboot instance_ref))
             (update_state env context instance_id)))))))"

subsection \<open>\<^verbatim>\<open>live_migration\<close>\<close>

text \<open>\<^verbatim>\<open>range(n)\<close>: empty when \<open>n\<close> is not positive.\<close>

definition range_py :: "int \<Rightarrow> int list" where
  "range_py n = [0..n - 1]"

text \<open>
  The polling loop: \<open>timeout_count\<close> is the list the loop pops from, \<open>ret\<close> the variable
  it assigns. \<^verbatim>\<open>break\<close> leaves with the answer just received.
\<close>

function wait_nwfilter ::
  "env \<Rightarrow> request_context \<Rightarrow> string \<Rightarrow> instance_id \<Rightarrow> int list \<Rightarrow> py_value \<Rightarrow> py_value io" where
  "wait_nwfilter env context topic instance_id timeout_count ret =
     (if 0 \<noteq> length timeout_count
      then
        bind_io
          (call_value env (RpcCall context topic (NwfilterForInstanceExists instance_id)))
          (\<lambda>ret'.
           if truthy ret' then return_io ret'
           else seq_io (sleep 1)
                  (wait_nwfilter env context topic instance_id (butlast timeout_count) ret'))
      else return_io ret)"
  by pat_completeness auto
termination
  by (relation "measure (\<lambda>(env, context, topic, instance_id, timeout_count, ret).
                           length timeout_count)") auto

declare wait_nwfilter.simps [simp del]

text \<open>\<^verbatim>\<open>True != ret\<close> is the negation of \<^verbatim>\<open>True == ret\<close>.\<close>

definition live_migration :: "env \<Rightarrow> config \<Rightarrow> request_context \<Rightarrow> instance_id \<Rightarrow> string \<Rightarrow> unit io" where
  "live_migration env cfg context instance_id dest =
     bind_io (call_string env (DbQueueGetFor context (compute_topic cfg) dest)) (\<lambda>topic.
     bind_io (call_value env (RpcCall context topic (PreLiveMigration instance_id dest)))
       (\<lambda>ret.
     if \<not> equals_True ret
     then
       seq_io (logging ERROR ''Live migration failed(err at %s)'')
              (call_unit env (DbInstanceSetState context instance_id RUNNING (Some ''running'')))
     else
       bind_io
         (wait_nwfilter env context topic instance_id
            (range_py (live_migration_timeout cfg)) ret)
         (\<lambda>ret.
       if \<not> truthy ret
       then logging ERROR ''Timeout for pre_live_migration at %s''
       else
         bind_io (call_instance env (DbInstanceGet context instance_id)) (\<lambda>instance_ref.
         bind_io (call_value env (DriverLiveMigration instance_ref dest)) (\<lambda>ret.
         if \<not> truthy ret then logging DEBUG ''Fail to live migration'' else return_io ())))))"

subsection \<open>Reading a trace\<close>

definition is_driver_destroy :: "event \<Rightarrow> bool" where
  "is_driver_destroy ev = (case ev of DriverDestroy _ \<Rightarrow> True | _ \<Rightarrow> False)"

definition is_driver_live_migration :: "event \<Rightarrow> bool" where
  "is_driver_live_migration ev = (case ev of DriverLiveMigration _ _ \<Rightarrow> True | _ \<Rightarrow> False)"

definition is_db_write :: "event \<Rightarrow> bool" where
  "is_db_write ev =
     (case ev of
        DbInstanceSetState _ _ _ _ \<Rightarrow> True
      | DbInstanceUpdate _ _ _ \<Rightarrow> True
      | DbInstanceDestroy _ _ \<Rightarrow> True
      | DbVolumeAttached _ _ _ _ \<Rightarrow> True
      | DbVolumeDetached _ _ \<Rightarrow> True
      | _ \<Rightarrow> False)"

text \<open>
  The power state an instance store holds for \<open>instance_id\<close> after the calls of a trace,
  when it held \<open>s\<close> before them: the state of the last \<^verbatim>\<open>instance_set_state\<close> for it.
\<close>

primrec stored_state :: "instance_id \<Rightarrow> trace \<Rightarrow> power_state \<Rightarrow> power_state" where
  "stored_state instance_id [] s = s"
| "stored_state instance_id (ev # t) s =
     stored_state instance_id t
       (case ev of
          DbInstanceSetState _ j s' _ \<Rightarrow> if j = instance_id then s' else s
        | _ \<Rightarrow> s)"

text \<open>
  The collaborators let a resynchronization started after the trace \<open>t\<close> go through: the
  store hands out \<open>row\<close>, the driver reports the state \<open>s\<close> for it (or does not know the
  instance, and \<open>s\<close> is \<open>NOSTATE\<close>), and the store takes the write.
\<close>

definition resynchronizes ::
  "env \<Rightarrow> request_context \<Rightarrow> instance_id \<Rightarrow> trace \<Rightarrow> instance_row \<Rightarrow> power_state \<Rightarrow> bool" where
  "resynchronizes env context instance_id t row s =
     (resp_instance env t (DbInstanceGet context instance_id) = Inr row \<and>
      (case resp_info env (t @ [DbInstanceGet context instance_id]) (DriverGetInfo (name row)) of
         Inr info \<Rightarrow> s = info_state info
       | Inl (NotFound _) \<Rightarrow> s = NOSTATE
       | Inl _ \<Rightarrow> False) \<and>
      resp_unit env (t @ [DbInstanceGet context instance_id, DriverGetInfo (name row)])
        (DbInstanceSetState context instance_id s None) = Inr ())"

text \<open>The calls of that resynchronization.\<close>

definition resync_calls ::
  "request_context \<Rightarrow> instance_id \<Rightarrow> instance_row \<Rightarrow> power_state \<Rightarrow> event list" where
  "resync_calls context instance_id row s =
     [DbInstanceGet context instance_id, DriverGetInfo (name row),
      DbInstanceSetState context instance_id s None]"

text \<open>One poll of the migration handshake that found no filter, and \<open>n\<close> of them.\<close>

definition poll_round :: "request_context \<Rightarrow> string \<Rightarrow> instance_id \<Rightarrow> event list" where
  "poll_round context topic instance_id =
     [RpcCall context topic (NwfilterForInstanceExists instance_id), Sleep 1]"

definition poll_rounds :: "request_context \<Rightarrow> string \<Rightarrow> instance_id \<Rightarrow> nat \<Rightarrow> event list" where
  "poll_rounds context topic instance_id n =
     concat (replicate n (poll_round context topic instance_id))"

subsection \<open>A simulated environment\<close>

text \<open>
  A stand-in for the collaborators, for running the manager on concrete inputs: the store
  holds one instance row and hands out a copy of it with the power state written last,
  the driver knows the instances \<open>known\<close> and reports \<open>info\<close>, a call that returns
  nothing raises what \<open>fails\<close> says, and a call whose answer is tested returns what
  \<open>answer\<close> says.
\<close>

definition sim_env ::
  "instance_row \<Rightarrow> string list \<Rightarrow> exn + driver_info \<Rightarrow> (event \<Rightarrow> exn option) \<Rightarrow>
   (event \<Rightarrow> py_value) \<Rightarrow> env" where
  "sim_env row known info fails answer =
     \<lparr>resp_unit = (\<lambda>t ev. case fails ev of Some e \<Rightarrow> Inl e | None \<Rightarrow> Inr ()),
      resp_value = (\<lambda>t ev. Inr (answer ev)),
      resp_string =
        (\<lambda>t ev. case ev of
                   DbQueueGetFor _ topic h \<Rightarrow> Inr (topic @ ''.'' @ h)
                 | _ \<Rightarrow> Inr ''/dev/etherd/e0.1''),
      resp_names = (\<lambda>t ev. Inr known),
      resp_instance =
        (\<lambda>t ev. case ev of
                   DbInstanceGet _ i \<Rightarrow> Inr (row\<lparr>state := stored_state i t (state row)\<rparr>)
                 | _ \<Rightarrow> Inr row),
      resp_volume =
        (\<lambda>t ev. case ev of
                   DbVolumeGet _ v \<Rightarrow> Inr \<lparr>vol_id = v, mountpoint = ''/dev/vdb''\<rparr>
                 | _ \<Rightarrow> Inl (NotFound ''volume'')),
      resp_info = (\<lambda>t ev. info),
      resp_time = length\<rparr>"

definition user_context :: request_context where
  "user_context = \<lparr>user_id = ''alice'', is_admin = False\<rparr>"

definition admin_context :: request_context where
  "admin_context = \<lparr>user_id = ''alice'', is_admin = True\<rparr>"

definition row_in :: "power_state \<Rightarrow> volume list option \<Rightarrow> instance_row" where
  "row_in s vs =
     \<lparr>name = ''instance-1'', state = s, internal_id = ''1'', hostname = ''i-1'',
      volumes = vs\<rparr>"

definition reports :: "power_state \<Rightarrow> exn + driver_info" where
  "reports s = Inr \<lparr>info_state = s\<rparr>"

definition no_failure :: "event \<Rightarrow> exn option" where
  "no_failure ev = None"

definition spawn_fails :: "event \<Rightarrow> exn option" where
  "spawn_fails ev = (case ev of DriverSpawn _ \<Rightarrow> Some (Failure ''spawn'') | _ \<Rightarrow> None)"

definition attach_fails :: "event \<Rightarrow> exn option" where
  "attach_fails ev =
     (case ev of DriverAttachVolume _ _ _ \<Rightarrow> Some (Failure ''attach'') | _ \<Rightarrow> None)"

definition attach_and_remove_fail :: "event \<Rightarrow> exn option" where
  "attach_and_remove_fail ev =
     (case ev of
        DriverAttachVolume _ _ _ \<Rightarrow> Some (Failure ''attach'')
      | VolumeRemoveComputeVolume _ _ \<Rightarrow> Some (Failure ''remove'')
      | _ \<Rightarrow> None)"

definition record_fails :: "event \<Rightarrow> exn option" where
  "record_fails ev =
     (case ev of DbVolumeAttached _ _ _ _ \<Rightarrow> Some (Failure ''volume_attached'') | _ \<Rightarrow> None)"

text \<open>
  The peer of a migration: what its \<^verbatim>\<open>pre_live_migration\<close> returns and what it says
  of its filter at every poll; the driver's own migration succeeds.
\<close>

definition peer_value :: "py_value \<Rightarrow> py_value \<Rightarrow> event \<Rightarrow> py_value" where
  "peer_value prepared filtered ev =
     (case ev of
        RpcCall _ _ (PreLiveMigration _ _) \<Rightarrow> prepared
      | RpcCall _ _ (NwfilterForInstanceExists _) \<Rightarrow> filtered
      | _ \<Rightarrow> PBool True)"

definition peer :: "bool \<Rightarrow> bool \<Rightarrow> event \<Rightarrow> py_value" where
  "peer prepared filtered = peer_value (PBool prepared) (PBool filtered)"

definition config_with :: "int \<Rightarrow> config" where
  "config_with n = \<lparr>host = ''host-a'', compute_topic = ''compute'', live_migration_timeout = n\<rparr>"

section \<open>Properties\<close>

subsection \<open>Unfolding the combinators and the simulated environment\<close>

lemmas io_defs = return_io_def raise_io_def bind_io_def seq_io_def try_io_def unyielded_def
  call_unit_def call_value_def call_string_def call_names_def call_instance_def
  call_volume_def call_info_def utcnow_def sleep_def logging_def Let_def

lemma sim_env_simps:
  "resp_unit (sim_env row known info fails answer) t ev =
     (case fails ev of Some e \<Rightarrow> Inl e | None \<Rightarrow> Inr ())"
  "resp_value (sim_env row known info fails answer) t ev = Inr (answer ev)"
  "resp_string (sim_env row known info fails answer) t (DbQueueGetFor c topic h) =
     Inr (topic @ ''.'' @ h)"
  "resp_string (sim_env row known info fails answer) t (VolumeSetupComputeVolume c v) =
     Inr ''/dev/etherd/e0.1''"
  "resp_names (sim_env row known info fails answer) t ev = Inr known"
  "resp_instance (sim_env row known info fails answer) t (DbInstanceGet c i) =
     Inr (row\<lparr>state := stored_state i t (state row)\<rparr>)"
  "resp_volume (sim_env row known info fails answer) t (DbVolumeGet c v) =
     Inr \<lparr>vol_id = v, mountpoint = ''/dev/vdb''\<rparr>"
  "resp_info (sim_env row known info fails answer) t ev = info"
  "resp_time (sim_env row known info fails answer) t = length t"
  by (simp_all add: sim_env_def)

lemma row_in_simps:
  "name (row_in s vs) = ''instance-1''"
  "state (row_in s vs) = s"
  "volumes (row_in s vs) = vs"
  "(row_in s vs)\<lparr>state := s'\<rparr> = row_in s' vs"
  by (simp_all add: row_in_def)

lemma elevated_simps:
  "elevated user_context = admin_context"
  "elevated admin_context = admin_context"
  by (simp_all add: elevated_def user_context_def admin_context_def)

lemma config_with_simps:
  "host (config_with n) = ''host-a''"
  "compute_topic (config_with n) = ''compute''"
  "live_migration_timeout (config_with n) = n"
  by (simp_all add: config_with_def)

lemmas sim_defs = sim_env_simps row_in_simps elevated_simps config_with_simps reports_def
  no_failure_def spawn_fails_def attach_fails_def attach_and_remove_fail_def
  record_fails_def peer_def peer_value_def

subsection \<open>The state synchronizer\<close>

text \<open>
  Claim C9. \<^verbatim>\<open>_update_state\<close> fetches the row and asks the driver for the state of the
  instance, by name. When \<^verbatim>\<open>driver.get_info\<close> raises \<^verbatim>\<open>NotFound\<close>, the exception stops
  there: \<open>NOSTATE\<close> is written with \<^verbatim>\<open>db.instance_set_state\<close>, and the outcome of the method
  is the outcome of that write. When \<^verbatim>\<open>driver.get_info\<close> returns, the state written is the
  one it returned.
\<close>

theorem update_state_absorbs_not_found:
  fixes env c i t inst
  defines "t2 \<equiv> t @ [DbInstanceGet c i, DriverGetInfo (name inst)]"
  assumes "resp_instance env t (DbInstanceGet c i) = Inr inst"
  shows "(\<forall>msg. resp_info env (t @ [DbInstanceGet c i]) (DriverGetInfo (name inst))
                  = Inl (NotFound msg) \<longrightarrow>
           update_state env c i t =
             (resp_unit env t2 (DbInstanceSetState c i NOSTATE None),
              t2 @ [DbInstanceSetState c i NOSTATE None])) \<and>
         (\<forall>info. resp_info env (t @ [DbInstanceGet c i]) (DriverGetInfo (name inst))
                  = Inr info \<longrightarrow>
           update_state env c i t =
             (resp_unit env t2 (DbInstanceSetState c i (info_state info) None),
              t2 @ [DbInstanceSetState c i (info_state info) None]))"
  using assms by (simp add: update_state_def io_defs)

text \<open>
  The driver does not know the instance: \<open>NOSTATE\<close> is written and nothing is raised.
\<close>

theorem update_state_absorbs_not_found_witness:
  "resp_info
     (sim_env (row_in RUNNING None) [] (Inl (NotFound ''instance-1'')) no_failure
        (peer True True))
     [DbInstanceGet admin_context ''i-1''] (DriverGetInfo ''instance-1'') =
     Inl (NotFound ''instance-1'') \<and>
   update_state
     (sim_env (row_in RUNNING None) [] (Inl (NotFound ''instance-1'')) no_failure
        (peer True True))
     admin_context ''i-1'' [] =
     (Inr (),
      [DbInstanceGet admin_context ''i-1'', DriverGetInfo ''instance-1'',
       DbInstanceSetState admin_context ''i-1'' NOSTATE None])"
  using update_state_absorbs_not_found
    [where env = "sim_env (row_in RUNNING None) [] (Inl (NotFound ''instance-1'')) no_failure
                    (peer True True)"
       and t = "[]" and c = admin_context and i = "''i-1''"
       and inst = "row_in RUNNING None"]
  by (simp add: sim_defs)

text \<open>
  Any other exception of \<^verbatim>\<open>driver.get_info\<close> leaves the method, and nothing is written.
\<close>

lemma update_state_other_error:
  assumes "resp_instance env t (DbInstanceGet c i) = Inr inst"
    and "resp_info env (t @ [DbInstanceGet c i]) (DriverGetInfo (name inst)) = Inl e"
    and "\<forall>msg. e \<noteq> NotFound msg"
  shows "update_state env c i t = (Inl e, t @ [DbInstanceGet c i, DriverGetInfo (name inst)])"
  using assms by (cases e) (simp_all add: update_state_def io_defs)

subsection \<open>\<^verbatim>\<open>run_instance\<close>\<close>

text \<open>
  Claim C6. When the name of the instance is in the list the driver returns,
  \<^verbatim>\<open>run_instance\<close> raises \<^verbatim>\<open>Error("Instance has already been created")\<close> after two calls,
  both of them reads: the row is fetched and the driver's instances are listed. The network
  is not set up, nothing is written to the database and the driver does not spawn.
\<close>

theorem run_instance_already_created:
  assumes "resp_instance env t (DbInstanceGet (elevated c) i) = Inr inst"
    and "resp_names env (t @ [DbInstanceGet (elevated c) i]) DriverListInstances = Inr names"
    and "name inst \<in> set names"
  shows "run_instance env cfg c i t =
           (Inl (Error ''Instance has already been created''),
            t @ [DbInstanceGet (elevated c) i, DriverListInstances])"
  using assms by (simp add: run_instance_def io_defs)

text \<open>
  The driver already knows \<open>instance-1\<close>.
\<close>

theorem run_instance_already_created_witness:
  "name (row_in RUNNING None) \<in> set [''instance-1''] \<and>
   run_instance
     (sim_env (row_in RUNNING None) [''instance-1''] (reports RUNNING) no_failure
        (peer True True))
     (config_with 30) user_context ''i-1'' [] =
     (Inl (Error ''Instance has already been created''),
      [DbInstanceGet admin_context ''i-1'', DriverListInstances])"
  using run_instance_already_created
    [where env = "sim_env (row_in RUNNING None) [''instance-1''] (reports RUNNING) no_failure
                    (peer True True)"
       and t = "[]" and c = user_context and i = "''i-1''"
       and inst = "row_in RUNNING None" and names = "[''instance-1'']"
       and cfg = "config_with 30"]
  by (simp add: sim_defs)

text \<open>
  A resynchronization that the collaborators let through makes the three calls of
  \<^verbatim>\<open>_update_state\<close> and returns.
\<close>

lemma update_state_resynchronizes:
  assumes "resynchronizes env c i t row s"
  shows "update_state env c i t = (Inr (), t @ resync_calls c i row s)"
  using assms
  by (auto simp: resynchronizes_def resync_calls_def update_state_def io_defs
           split: sum.splits exn.splits)

text \<open>
  Claim C2. \<^verbatim>\<open>run_instance\<close> resynchronizes on both paths of \<^verbatim>\<open>spawn\<close>. When the
  driver's \<^verbatim>\<open>spawn\<close> raises, the failure is logged and the power state is set to
  \<open>SHUTDOWN\<close>; the calls of \<^verbatim>\<open>_update_state\<close> follow and the method returns: the
  exception of \<^verbatim>\<open>spawn\<close> does not leave it, the clock is not read and no
  \<^verbatim>\<open>launched_at\<close> is written. When \<^verbatim>\<open>spawn\<close> returns, the clock is read,
  \<^verbatim>\<open>launched_at\<close> is written, and the same calls of \<^verbatim>\<open>_update_state\<close> follow.
\<close>

theorem run_instance_resynchronizes_after_spawn:
  fixes env cfg c0 i t inst names
  defines "c \<equiv> elevated c0"
  defines "t3 \<equiv> t @ [DbInstanceGet c i, DriverListInstances,
                     Log DEBUG ''instance %s: starting...'']"
  defines "t6 \<equiv> t3 @ [NetworkSetupComputeNetwork c i, DbInstanceUpdate c i (Host (host cfg)),
                      DbInstanceSetState c i NOSTATE (Some ''spawning'')]"
  defines "failed \<equiv> [DriverSpawn inst, Log EXCEPTION ''instance %s: Failed to spawn'',
                      DbInstanceSetState c i SHUTDOWN None]"
  defines "launched \<equiv> [DriverSpawn inst, UtcNow,
                        DbInstanceUpdate c i (LaunchedAt (resp_time env (t6 @ [DriverSpawn inst])))]"
  assumes "resp_instance env t (DbInstanceGet c i) = Inr inst"
    and "resp_names env (t @ [DbInstanceGet c i]) DriverListInstances = Inr names"
    and "name inst \<notin> set names"
    and "resp_unit env t3 (NetworkSetupComputeNetwork c i) = Inr ()"
    and "resp_unit env (t3 @ [NetworkSetupComputeNetwork c i])
           (DbInstanceUpdate c i (Host (host cfg))) = Inr ()"
    and "resp_unit env (t3 @ [NetworkSetupComputeNetwork c i,
                              DbInstanceUpdate c i (Host (host cfg))])
           (DbInstanceSetState c i NOSTATE (Some ''spawning'')) = Inr ()"
  shows "(\<forall>e row s.
            resp_unit env t6 (DriverSpawn inst) = Inl e \<longrightarrow>
            resp_unit env (t6 @ [DriverSpawn inst, Log EXCEPTION ''instance %s: Failed to spawn''])
              (DbInstanceSetState c i SHUTDOWN None) = Inr () \<longrightarrow>
            resynchronizes env c i (t6 @ failed) row s \<longrightarrow>
            run_instance env cfg c0 i t = (Inr (), t6 @ failed @ resync_calls c i row s)) \<and>
         (\<forall>row s.
            resp_unit env t6 (DriverSpawn inst) = Inr () \<longrightarrow>
            resp_unit env (t6 @ [DriverSpawn inst, UtcNow])
              (DbInstanceUpdate c i (LaunchedAt (resp_time env (t6 @ [DriverSpawn inst]))))
              = Inr () \<longrightarrow>
            resynchronizes env c i (t6 @ launched) row s \<longrightarrow>
            run_instance env cfg c0 i t = (Inr (), t6 @ launched @ resync_calls c i row s))"
proof (intro conjI allI impI)
  fix e row s
  assume spawn: "resp_unit env t6 (DriverSpawn inst) = Inl e"
    and shut: "resp_unit env (t6 @ [DriverSpawn inst,
                 Log EXCEPTION ''instance %s: Failed to spawn''])
                 (DbInstanceSetState c i SHUTDOWN None) = Inr ()"
    and sync: "resynchronizes env c i (t6 @ failed) row s"
  have "run_instance env cfg c0 i t = update_state env c i (t6 @ failed)"
    using assms(6-11) spawn shut unfolding c_def t3_def t6_def failed_def
    by (simp add: run_instance_def io_defs)
  then show "run_instance env cfg c0 i t = (Inr (), t6 @ failed @ resync_calls c i row s)"
    using update_state_resynchronizes [OF sync] by simp
next
  fix row s
  assume spawn: "resp_unit env t6 (DriverSpawn inst) = Inr ()"
    and stamp: "resp_unit env (t6 @ [DriverSpawn inst, UtcNow])
                  (DbInstanceUpdate c i (LaunchedAt (resp_time env (t6 @ [DriverSpawn inst]))))
                  = Inr ()"
    and sync: "resynchronizes env c i (t6 @ launched) row s"
  have "run_instance env cfg c0 i t = update_state env c i (t6 @ launched)"
    using assms(6-11) spawn stamp unfolding c_def t3_def t6_def launched_def
    by (simp add: run_instance_def io_defs)
  then show "run_instance env cfg c0 i t = (Inr (), t6 @ launched @ resync_calls c i row s)"
    using update_state_resynchronizes [OF sync] by simp
qed

text \<open>
  \<^verbatim>\<open>spawn\<close> raises and the driver does not know the instance afterwards: the method
  returns, and the last three calls are those of \<^verbatim>\<open>_update_state\<close>.
\<close>

theorem run_instance_resynchronizes_after_spawn_witness:
  "resp_unit
     (sim_env (row_in NOSTATE None) [] (Inl (NotFound ''instance-1'')) spawn_fails
        (peer True True))
     [DbInstanceGet admin_context ''i-1'', DriverListInstances,
      Log DEBUG ''instance %s: starting...'',
      NetworkSetupComputeNetwork admin_context ''i-1'',
      DbInstanceUpdate admin_context ''i-1'' (Host ''host-a''),
      DbInstanceSetState admin_context ''i-1'' NOSTATE (Some ''spawning'')]
     (DriverSpawn (row_in NOSTATE None)) = Inl (Failure ''spawn'') \<and>
   run_instance
     (sim_env (row_in NOSTATE None) [] (Inl (NotFound ''instance-1'')) spawn_fails
        (peer True True))
     (config_with 30) user_context ''i-1'' [] =
     (Inr (),
      [DbInstanceGet admin_context ''i-1'', DriverListInstances,
       Log DEBUG ''instance %s: starting...'',
       NetworkSetupComputeNetwork admin_context ''i-1'',
       DbInstanceUpdate admin_context ''i-1'' (Host ''host-a''),
       DbInstanceSetState admin_context ''i-1'' NOSTATE (Some ''spawning''),
       DriverSpawn (row_in NOSTATE None),
       Log EXCEPTION ''instance %s: Failed to spawn'',
       DbInstanceSetState admin_context ''i-1'' SHUTDOWN None,
       DbInstanceGet admin_context ''i-1'',
       DriverGetInfo ''instance-1'',
       DbInstanceSetState admin_context ''i-1'' NOSTATE None])"
  using run_instance_resynchronizes_after_spawn
    [where env = "sim_env (row_in NOSTATE None) [] (Inl (NotFound ''instance-1'')) spawn_fails
                    (peer True True)"
       and t = "[]" and ?c0.0 = user_context and i = "''i-1''"
       and inst = "row_in NOSTATE None" and names = "[]" and cfg = "config_with 30",
     THEN conjunct1, rule_format,
     where e = "Failure ''spawn''" and row = "row_in SHUTDOWN None" and s = NOSTATE]
  by (simp add: sim_defs resynchronizes_def resync_calls_def)

text \<open>
  \<^verbatim>\<open>spawn\<close> returns and the driver reports the instance running.
\<close>

lemma run_instance_spawned:
  "run_instance
     (sim_env (row_in NOSTATE None) [] (reports RUNNING) no_failure (peer True True))
     (config_with 30) user_context ''i-1'' [] =
     (Inr (),
      [DbInstanceGet admin_context ''i-1'', DriverListInstances,
       Log DEBUG ''instance %s: starting...'',
       NetworkSetupComputeNetwork admin_context ''i-1'',
       DbInstanceUpdate admin_context ''i-1'' (Host ''host-a''),
       DbInstanceSetState admin_context ''i-1'' NOSTATE (Some ''spawning''),
       DriverSpawn (row_in NOSTATE None),
       UtcNow,
       DbInstanceUpdate admin_context ''i-1'' (LaunchedAt 7),
       DbInstanceGet admin_context ''i-1'',
       DriverGetInfo ''instance-1'',
       DbInstanceSetState admin_context ''i-1'' RUNNING None])"
  by (simp add: run_instance_def update_state_def io_defs sim_defs)

subsection \<open>\<^verbatim>\<open>attach_volume\<close> and \<^verbatim>\<open>detach_volume\<close>\<close>

text \<open>
  When the driver's \<^verbatim>\<open>attach_volume\<close> raises, the failure is logged, the volume manager
  is asked once to remove the volume, and \<^verbatim>\<open>db.volume_attached\<close> is not called. Once the
  removal has returned, the exception that leaves the method is the driver's; a removal
  that raises leaves the method with its own exception.
\<close>

lemma attach_volume_driver_failure:
  fixes env c0 i v m t inst dev_path e
  defines "c \<equiv> elevated c0"
  defines "t3 \<equiv> t @ [Log DEBUG ''instance %s: attaching volume %s to %s'', DbInstanceGet c i,
                     VolumeSetupComputeVolume c v]"
  defines "t5 \<equiv> t3 @ [DriverAttachVolume (name inst) dev_path m,
                      Log EXCEPTION ''instance %s: attach failed %s, removing'']"
  assumes "resp_instance env (t @ [Log DEBUG ''instance %s: attaching volume %s to %s''])
             (DbInstanceGet c i) = Inr inst"
    and "resp_string env (t @ [Log DEBUG ''instance %s: attaching volume %s to %s'',
                               DbInstanceGet c i])
           (VolumeSetupComputeVolume c v) = Inr dev_path"
    and "resp_unit env t3 (DriverAttachVolume (name inst) dev_path m) = Inl e"
  shows "attach_volume env c0 i v m t =
           ((case resp_unit env t5 (VolumeRemoveComputeVolume c v) of
               Inl e' \<Rightarrow> Inl e'
             | Inr _ \<Rightarrow> Inl e),
            t5 @ [VolumeRemoveComputeVolume c v])"
  using assms by (simp add: attach_volume_def io_defs split: sum.splits)

text \<open>
  The driver refuses the volume and the removal succeeds: the driver's exception is raised.
\<close>

lemma attach_volume_driver_failure_example:
  "resp_unit
     (sim_env (row_in RUNNING None) [''instance-1''] (reports RUNNING) attach_fails
        (peer True True))
     [Log DEBUG ''instance %s: attaching volume %s to %s'',
      DbInstanceGet admin_context ''i-1'', VolumeSetupComputeVolume admin_context ''v-1'']
     (DriverAttachVolume ''instance-1'' ''/dev/etherd/e0.1'' ''/dev/vdb'') =
     Inl (Failure ''attach'') \<and>
   attach_volume
     (sim_env (row_in RUNNING None) [''instance-1''] (reports RUNNING) attach_fails
        (peer True True))
     user_context ''i-1'' ''v-1'' ''/dev/vdb'' [] =
     (Inl (Failure ''attach''),
      [Log DEBUG ''instance %s: attaching volume %s to %s'',
       DbInstanceGet admin_context ''i-1'',
       VolumeSetupComputeVolume admin_context ''v-1'',
       DriverAttachVolume ''instance-1'' ''/dev/etherd/e0.1'' ''/dev/vdb'',
       Log EXCEPTION ''instance %s: attach failed %s, removing'',
       VolumeRemoveComputeVolume admin_context ''v-1''])"
  using attach_volume_driver_failure
    [where env = "sim_env (row_in RUNNING None) [''instance-1''] (reports RUNNING) attach_fails
                    (peer True True)"
       and t = "[]" and ?c0.0 = user_context and i = "''i-1''" and v = "''v-1''"
       and m = "''/dev/vdb''" and inst = "row_in RUNNING None"
       and dev_path = "''/dev/etherd/e0.1''" and e = "Failure ''attach''"]
  by (simp add: sim_defs)

text \<open>
  Claim C3 has the driver's exception, and never one of the compensation, leave the method
  in every call where the driver's attach raises; the comment in the handler says the
  same (\<^verbatim>\<open>reraise the same ecxception below\<close>). Here the driver raises
  \<open>Failure ''attach''\<close>, the removal of the volume raises \<open>Failure ''remove''\<close>, and the
  method raises the latter: \<^verbatim>\<open>raise exc\<close> is not reached.
\<close>

theorem attach_volume_removal_error_surfaces:
  "resp_unit
     (sim_env (row_in RUNNING None) [''instance-1''] (reports RUNNING) attach_and_remove_fail
        (peer True True))
     [Log DEBUG ''instance %s: attaching volume %s to %s'',
      DbInstanceGet admin_context ''i-1'', VolumeSetupComputeVolume admin_context ''v-1'']
     (DriverAttachVolume ''instance-1'' ''/dev/etherd/e0.1'' ''/dev/vdb'') =
     Inl (Failure ''attach'') \<and>
   attach_volume
     (sim_env (row_in RUNNING None) [''instance-1''] (reports RUNNING) attach_and_remove_fail
        (peer True True))
     user_context ''i-1'' ''v-1'' ''/dev/vdb'' [] =
     (Inl (Failure ''remove''),
      [Log DEBUG ''instance %s: attaching volume %s to %s'',
       DbInstanceGet admin_context ''i-1'',
       VolumeSetupComputeVolume admin_context ''v-1'',
       DriverAttachVolume ''instance-1'' ''/dev/etherd/e0.1'' ''/dev/vdb'',
       Log EXCEPTION ''instance %s: attach failed %s, removing'',
       VolumeRemoveComputeVolume admin_context ''v-1''])"
  by (simp add: attach_volume_def io_defs sim_defs)

text \<open>
  Claim C10. The \<^verbatim>\<open>try\<close> block of \<^verbatim>\<open>attach_volume\<close> covers \<^verbatim>\<open>db.volume_attached\<close> as well:
  when the driver has attached the volume and recording the attachment raises, the volume
  manager still removes the volume, and with the removal done the exception of the
  database is raised again. The driver is not asked to detach.
\<close>

theorem attach_volume_record_failure:
  fixes env c0 i v m t inst dev_path e
  defines "c \<equiv> elevated c0"
  defines "t3 \<equiv> t @ [Log DEBUG ''instance %s: attaching volume %s to %s'', DbInstanceGet c i,
                     VolumeSetupComputeVolume c v]"
  defines "t6 \<equiv> t3 @ [DriverAttachVolume (name inst) dev_path m, DbVolumeAttached c v i m,
                      Log EXCEPTION ''instance %s: attach failed %s, removing'']"
  assumes "resp_instance env (t @ [Log DEBUG ''instance %s: attaching volume %s to %s''])
             (DbInstanceGet c i) = Inr inst"
    and "resp_string env (t @ [Log DEBUG ''instance %s: attaching volume %s to %s'',
                               DbInstanceGet c i])
           (VolumeSetupComputeVolume c v) = Inr dev_path"
    and "resp_unit env t3 (DriverAttachVolume (name inst) dev_path m) = Inr ()"
    and "resp_unit env (t3 @ [DriverAttachVolume (name inst) dev_path m])
           (DbVolumeAttached c v i m) = Inl e"
    and "resp_unit env t6 (VolumeRemoveComputeVolume c v) = Inr ()"
  shows "attach_volume env c0 i v m t = (Inl e, t6 @ [VolumeRemoveComputeVolume c v])"
  using assms by (simp add: attach_volume_def io_defs)

text \<open>
  The driver attaches and the database refuses the record.
\<close>

theorem attach_volume_record_failure_witness:
  "resp_unit
     (sim_env (row_in RUNNING None) [''instance-1''] (reports RUNNING) record_fails
        (peer True True))
     [Log DEBUG ''instance %s: attaching volume %s to %s'',
      DbInstanceGet admin_context ''i-1'', VolumeSetupComputeVolume admin_context ''v-1'',
      DriverAttachVolume ''instance-1'' ''/dev/etherd/e0.1'' ''/dev/vdb'']
     (DbVolumeAttached admin_context ''v-1'' ''i-1'' ''/dev/vdb'') =
     Inl (Failure ''volume_attached'') \<and>
   attach_volume
     (sim_env (row_in RUNNING None) [''instance-1''] (reports RUNNING) record_fails
        (peer True True))
     user_context ''i-1'' ''v-1'' ''/dev/vdb'' [] =
     (Inl (Failure ''volume_attached''),
      [Log DEBUG ''instance %s: attaching volume %s to %s'',
       DbInstanceGet admin_context ''i-1'',
       VolumeSetupComputeVolume admin_context ''v-1'',
       DriverAttachVolume ''instance-1'' ''/dev/etherd/e0.1'' ''/dev/vdb'',
       DbVolumeAttached admin_context ''v-1'' ''i-1'' ''/dev/vdb'',
       Log EXCEPTION ''instance %s: attach failed %s, removing'',
       VolumeRemoveComputeVolume admin_context ''v-1''])"
  using attach_volume_record_failure
    [where env = "sim_env (row_in RUNNING None) [''instance-1''] (reports RUNNING) record_fails
                    (peer True True)"
       and t = "[]" and ?c0.0 = user_context and i = "''i-1''" and v = "''v-1''"
       and m = "''/dev/vdb''" and inst = "row_in RUNNING None"
       and dev_path = "''/dev/etherd/e0.1''" and e = "Failure ''volume_attached''"]
  by (simp add: sim_defs)

text \<open>
  Claim C7. \<^verbatim>\<open>detach_volume\<close> fetches the instance and the volume and lists the driver's
  instances. When the name of the instance is not listed it logs a warning in place of the
  driver's detach; when it is listed it asks the driver to detach, with the name of the
  instance and the mountpoint of the volume row. Either way the volume manager then removes
  the volume, the database records the detachment, and the method returns \<open>True\<close>.
\<close>

theorem detach_volume_cleanup:
  fixes env c0 i v t inst vol names
  defines "c \<equiv> elevated c0"
  defines "t3 \<equiv> t @ [Log DEBUG ''instance %s: detaching volume %s'', DbInstanceGet c i,
                     DbVolumeGet c v, DriverListInstances]"
  defines "mid \<equiv> (if name inst \<notin> set names
                   then Log WARN ''Detaching volume from unknown instance %s''
                   else DriverDetachVolume (name inst) (mountpoint vol))"
  assumes "resp_instance env (t @ [Log DEBUG ''instance %s: detaching volume %s''])
             (DbInstanceGet c i) = Inr inst"
    and "resp_volume env (t @ [Log DEBUG ''instance %s: detaching volume %s'', DbInstanceGet c i])
             (DbVolumeGet c v) = Inr vol"
    and "resp_names env (t @ [Log DEBUG ''instance %s: detaching volume %s'', DbInstanceGet c i,
             DbVolumeGet c v]) DriverListInstances = Inr names"
    and "name inst \<in> set names \<Longrightarrow>
           resp_unit env t3 (DriverDetachVolume (name inst) (mountpoint vol)) = Inr ()"
    and "resp_unit env (t3 @ [mid]) (VolumeRemoveComputeVolume c v) = Inr ()"
    and "resp_unit env (t3 @ [mid, VolumeRemoveComputeVolume c v]) (DbVolumeDetached c v) = Inr ()"
  shows "detach_volume env c0 i v t =
           (Inr True, t3 @ [mid, VolumeRemoveComputeVolume c v, DbVolumeDetached c v])"
  using assms by (cases "name inst \<in> set names") (simp_all add: detach_volume_def io_defs)

text \<open>
  The driver knows no instance: a warning, then the removal and the record.
\<close>

theorem detach_volume_cleanup_witness:
  "name (row_in RUNNING None) \<notin> set [] \<and>
   detach_volume
     (sim_env (row_in RUNNING None) [] (Inl (NotFound ''instance-1'')) no_failure
        (peer True True))
     user_context ''i-1'' ''v-1'' [] =
     (Inr True,
      [Log DEBUG ''instance %s: detaching volume %s'',
       DbInstanceGet admin_context ''i-1'',
       DbVolumeGet admin_context ''v-1'',
       DriverListInstances,
       Log WARN ''Detaching volume from unknown instance %s'',
       VolumeRemoveComputeVolume admin_context ''v-1'',
       DbVolumeDetached admin_context ''v-1''])"
  using detach_volume_cleanup
    [where env = "sim_env (row_in RUNNING None) [] (Inl (NotFound ''instance-1'')) no_failure
                    (peer True True)"
       and t = "[]" and ?c0.0 = user_context and i = "''i-1''" and v = "''v-1''"
       and inst = "row_in RUNNING None" and names = "[]"
       and vol = "\<lparr>vol_id = ''v-1'', mountpoint = ''/dev/vdb''\<rparr>"]
  by (simp add: sim_defs)

text \<open>
  The driver knows the instance: it is asked to detach, with the mountpoint of the volume row.
\<close>

lemma detach_volume_known_instance:
  "detach_volume
     (sim_env (row_in RUNNING None) [''instance-1''] (reports RUNNING) no_failure
        (peer True True))
     user_context ''i-1'' ''v-1'' [] =
     (Inr True,
      [Log DEBUG ''instance %s: detaching volume %s'',
       DbInstanceGet admin_context ''i-1'',
       DbVolumeGet admin_context ''v-1'',
       DriverListInstances,
       DriverDetachVolume ''instance-1'' ''/dev/vdb'',
       VolumeRemoveComputeVolume admin_context ''v-1'',
       DbVolumeDetached admin_context ''v-1''])"
  by (simp add: detach_volume_def io_defs sim_defs)

subsection \<open>\<^verbatim>\<open>terminate_instance\<close>\<close>

text \<open>
  Whatever the collaborators answer, \<^verbatim>\<open>detach_volume\<close> only adds calls to the trace, and
  the driver's \<^verbatim>\<open>destroy\<close> is not one of them; so it is for the loop over the volumes, which
  always reaches its end, since the outcome of each detachment is dropped.
\<close>

lemma detach_volume_trace:
  "\<exists>es. snd (detach_volume env c i v t) = t @ es \<and> (\<forall>e\<in>set es. \<not> is_driver_destroy e)"
  by (auto simp: detach_volume_def io_defs is_driver_destroy_def split: sum.splits)

lemma detach_volumes_trace:
  "\<exists>es. snd (detach_volumes env c i vs t) = t @ es \<and> (\<forall>e\<in>set es. \<not> is_driver_destroy e)"
proof (induction vs arbitrary: t)
  case Nil
  show ?case by (simp add: io_defs)
next
  case (Cons v vs)
  obtain es where es: "snd (detach_volume env c i (vol_id v) t) = t @ es"
    "\<forall>e\<in>set es. \<not> is_driver_destroy e"
    using detach_volume_trace by blast
  obtain fs where fs: "snd (detach_volumes env c i vs (t @ es)) = t @ es @ fs"
    "\<forall>e\<in>set fs. \<not> is_driver_destroy e"
    using Cons.IH [of "t @ es"] by auto
  have "snd (detach_volumes env c i (v # vs) t) = t @ (es @ fs)"
    using es(1) fs(1) by (simp add: io_defs)
  moreover have "\<forall>e\<in>set (es @ fs). \<not> is_driver_destroy e"
    using es(2) fs(2) by auto
  ultimately show ?case by blast
qed

lemma detach_volumes_returns: "fst (detach_volumes env c i vs t) = Inr ()"
  by (induction vs arbitrary: t) (simp_all add: io_defs)

text \<open>
  Claim C1. When the row that \<^verbatim>\<open>terminate_instance\<close> fetched has the state \<open>SHUTOFF\<close>, the
  volumes are detached, the last call of the method is \<^verbatim>\<open>db.instance_destroy\<close>, and once
  that call has returned the method raises the "already destroyed" \<^verbatim>\<open>Error\<close> (were the
  database to raise, its exception would leave the method instead). The driver's
  \<^verbatim>\<open>destroy\<close> is not among the calls made.
\<close>

theorem terminate_instance_shutoff:
  fixes env c0 i t inst
  defines "c \<equiv> elevated c0"
  defines "t0 \<equiv> t @ [Log DEBUG ''instance %s: terminating'', DbInstanceGet c i]"
  defines "t1 \<equiv> snd (detach_volumes env c i (volumes_of inst) t0)"
  assumes "resp_instance env (t @ [Log DEBUG ''instance %s: terminating''])
             (DbInstanceGet c i) = Inr inst"
    and "state inst = SHUTOFF"
  shows "terminate_instance env c0 i t =
           ((case resp_unit env t1 (DbInstanceDestroy c i) of
               Inl e \<Rightarrow> Inl e
             | Inr _ \<Rightarrow>
                 Inl (Error (''trying to destroy already destroyed instance: '' @ i))),
            t1 @ [DbInstanceDestroy c i]) \<and>
         (\<exists>es. t1 = t0 @ es \<and> (\<forall>e\<in>set es. \<not> is_driver_destroy e))"
proof -
  obtain r where r: "detach_volumes env c i (volumes_of inst) t0 = (Inr r, t1)"
    unfolding t1_def using detach_volumes_returns [of env c i "volumes_of inst" t0]
    by (metis prod.collapse)
  have "terminate_instance env c0 i t =
           ((case resp_unit env t1 (DbInstanceDestroy c i) of
               Inl e \<Rightarrow> Inl e
             | Inr _ \<Rightarrow>
                 Inl (Error (''trying to destroy already destroyed instance: '' @ i))),
            t1 @ [DbInstanceDestroy c i])"
    using assms(4,5) r unfolding c_def t0_def
    by (simp add: terminate_instance_def io_defs split: sum.splits)
  moreover have "\<exists>es. t1 = t0 @ es \<and> (\<forall>e\<in>set es. \<not> is_driver_destroy e)"
    unfolding t1_def by (rule detach_volumes_trace)
  ultimately show ?thesis by blast
qed

text \<open>
  A \<open>SHUTOFF\<close> instance with one volume, unknown to the driver.
\<close>

theorem terminate_instance_shutoff_witness:
  "state (row_in SHUTOFF (Some [\<lparr>vol_id = ''v-1'', mountpoint = ''/dev/vdb''\<rparr>])) = SHUTOFF \<and>
   terminate_instance
     (sim_env (row_in SHUTOFF (Some [\<lparr>vol_id = ''v-1'', mountpoint = ''/dev/vdb''\<rparr>])) []
        (Inl (NotFound ''instance-1'')) no_failure (peer True True))
     user_context ''i-1'' [] =
     (Inl (Error ''trying to destroy already destroyed instance: i-1''),
      [Log DEBUG ''instance %s: terminating'',
       DbInstanceGet admin_context ''i-1'',
       Log DEBUG ''instance %s: detaching volume %s'',
       DbInstanceGet admin_context ''i-1'',
       DbVolumeGet admin_context ''v-1'',
       DriverListInstances,
       Log WARN ''Detaching volume from unknown instance %s'',
       VolumeRemoveComputeVolume admin_context ''v-1'',
       DbVolumeDetached admin_context ''v-1'',
       DbInstanceDestroy admin_context ''i-1''])"
  using terminate_instance_shutoff
    [where env = "sim_env (row_in SHUTOFF (Some [\<lparr>vol_id = ''v-1'', mountpoint = ''/dev/vdb''\<rparr>]))
                    [] (Inl (NotFound ''instance-1'')) no_failure (peer True True)"
       and t = "[]" and ?c0.0 = user_context and i = "''i-1''"
       and inst = "row_in SHUTOFF (Some [\<lparr>vol_id = ''v-1'', mountpoint = ''/dev/vdb''\<rparr>])"]
  by (simp add: sim_defs volumes_of_def detach_volume_def io_defs)

subsection \<open>\<^verbatim>\<open>reboot_instance\<close>\<close>

text \<open>
  Once the row is fetched and \<^verbatim>\<open>_update_state\<close> has returned, \<^verbatim>\<open>reboot_instance\<close> goes
  on whatever the state: it logs, sets the state to \<open>NOSTATE\<close> with \<open>rebooting\<close>, asks the
  driver to reboot and runs \<^verbatim>\<open>_update_state\<close> again. The warning is logged when the row
  fetched before \<^verbatim>\<open>_update_state\<close> ran is not \<open>RUNNING\<close>.
\<close>

lemma reboot_instance_proceeds:
  fixes env c0 i t inst t1
  defines "c \<equiv> elevated c0"
  assumes "resp_instance env t (DbInstanceGet c i) = Inr inst"
    and "update_state env c i (t @ [DbInstanceGet c i]) = (Inr (), t1)"
  shows "reboot_instance env c0 i t =
           seq_io (call_unit env (DbInstanceSetState c i NOSTATE (Some ''rebooting'')))
          (seq_io (call_unit env (DriverReboot inst)) (update_state env c i))
             (t1 @
              (if state inst \<noteq> RUNNING
               then [Log WARN
                       ''trying to reboot a non-running instance: %s (state: %s excepted: %s)'']
               else []) @
              [Log DEBUG ''instance %s: rebooting''])"
  using assms by (simp add: reboot_instance_def io_defs split: sum.splits)

text \<open>
  Claim C8 has the warning follow the power state as it is after the first
  resynchronization. The method tests the row it fetched before: with a stored state of
  \<open>RUNNING\<close> and a driver that reports \<open>SHUTDOWN\<close>, the store holds \<open>SHUTDOWN\<close> after the
  first \<^verbatim>\<open>_update_state\<close>, and no warning is logged.
\<close>

theorem reboot_instance_checks_fetched_state:
  "stored_state ''i-1''
     [DbInstanceGet admin_context ''i-1'', DbInstanceGet admin_context ''i-1'',
      DriverGetInfo ''instance-1'', DbInstanceSetState admin_context ''i-1'' SHUTDOWN None]
     RUNNING = SHUTDOWN \<and>
   reboot_instance
     (sim_env (row_in RUNNING None) [''instance-1''] (reports SHUTDOWN) no_failure
        (peer True True))
     user_context ''i-1'' [] =
     (Inr (),
      [DbInstanceGet admin_context ''i-1'',
       DbInstanceGet admin_context ''i-1'',
       DriverGetInfo ''instance-1'',
       DbInstanceSetState admin_context ''i-1'' SHUTDOWN None,
       Log DEBUG ''instance %s: rebooting'',
       DbInstanceSetState admin_context ''i-1'' NOSTATE (Some ''rebooting''),
       DriverReboot (row_in RUNNING None),
       DbInstanceGet admin_context ''i-1'',
       DriverGetInfo ''instance-1'',
       DbInstanceSetState admin_context ''i-1'' SHUTDOWN None])"
  by (simp add: reboot_instance_def update_state_def io_defs sim_defs)

text \<open>
  The other way round, with a stored state of \<open>SHUTDOWN\<close> and a driver that reports
  \<open>RUNNING\<close>, the warning is logged although the store holds \<open>RUNNING\<close> by then.
\<close>

lemma reboot_instance_warns_on_fetched_state:
  "stored_state ''i-1''
     [DbInstanceGet admin_context ''i-1'', DbInstanceGet admin_context ''i-1'',
      DriverGetInfo ''instance-1'', DbInstanceSetState admin_context ''i-1'' RUNNING None]
     SHUTDOWN = RUNNING \<and>
   reboot_instance
     (sim_env (row_in SHUTDOWN None) [''instance-1''] (reports RUNNING) no_failure
        (peer True True))
     user_context ''i-1'' [] =
     (Inr (),
      [DbInstanceGet admin_context ''i-1'',
       DbInstanceGet admin_context ''i-1'',
       DriverGetInfo ''instance-1'',
       DbInstanceSetState admin_context ''i-1'' RUNNING None,
       Log WARN ''trying to reboot a non-running instance: %s (state: %s excepted: %s)'',
       Log DEBUG ''instance %s: rebooting'',
       DbInstanceSetState admin_context ''i-1'' NOSTATE (Some ''rebooting''),
       DriverReboot (row_in SHUTDOWN None),
       DbInstanceGet admin_context ''i-1'',
       DriverGetInfo ''instance-1'',
       DbInstanceSetState admin_context ''i-1'' RUNNING None])"
  by (simp add: reboot_instance_def update_state_def io_defs sim_defs)

subsection \<open>\<^verbatim>\<open>live_migration\<close>\<close>

text \<open>
  Claim C4, amended. When the answer of the peer's \<^verbatim>\<open>pre_live_migration\<close> does not
  compare equal to \<^verbatim>\<open>True\<close> (the test of the method is \<^verbatim>\<open>True != ret\<close>),
  \<^verbatim>\<open>live_migration\<close> logs an error and sets the state of the instance to \<open>RUNNING\<close>; that
  write is its last call and its outcome. The peer is not polled and the driver is not
  called.
\<close>

theorem live_migration_prepare_refused:
  fixes env cfg c i dest t topic ret
  defines "t3 \<equiv> t @ [DbQueueGetFor c (compute_topic cfg) dest,
                     RpcCall c topic (PreLiveMigration i dest),
                     Log ERROR ''Live migration failed(err at %s)'']"
  assumes "resp_string env t (DbQueueGetFor c (compute_topic cfg) dest) = Inr topic"
    and "resp_value env (t @ [DbQueueGetFor c (compute_topic cfg) dest])
           (RpcCall c topic (PreLiveMigration i dest)) = Inr ret"
    and "\<not> equals_True ret"
  shows "live_migration env cfg c i dest t =
           (resp_unit env t3 (DbInstanceSetState c i RUNNING (Some ''running'')),
            t3 @ [DbInstanceSetState c i RUNNING (Some ''running'')])"
  using assms by (simp add: live_migration_def io_defs)

text \<open>
  The peer answers \<^verbatim>\<open>False\<close>.
\<close>

theorem live_migration_prepare_refused_witness:
  "resp_value
     (sim_env (row_in RUNNING None) [''instance-1''] (reports RUNNING) no_failure
        (peer False False))
     [DbQueueGetFor admin_context ''compute'' ''host-b'']
     (RpcCall admin_context ''compute.host-b'' (PreLiveMigration ''i-1'' ''host-b'')) =
     Inr (PBool False) \<and>
   \<not> equals_True (PBool False) \<and>
   live_migration
     (sim_env (row_in RUNNING None) [''instance-1''] (reports RUNNING) no_failure
        (peer False False))
     (config_with 30) admin_context ''i-1'' ''host-b'' [] =
     (Inr (),
      [DbQueueGetFor admin_context ''compute'' ''host-b'',
       RpcCall admin_context ''compute.host-b'' (PreLiveMigration ''i-1'' ''host-b''),
       Log ERROR ''Live migration failed(err at %s)'',
       DbInstanceSetState admin_context ''i-1'' RUNNING (Some ''running'')])"
  using live_migration_prepare_refused
    [where env = "sim_env (row_in RUNNING None) [''instance-1''] (reports RUNNING) no_failure
                    (peer False False)"
       and t = "[]" and c = admin_context and i = "''i-1''" and dest = "''host-b''"
       and cfg = "config_with 30" and topic = "''compute.host-b''" and ret = "PBool False"]
  by (simp add: sim_defs equals_True_def)

text \<open>
  A peer whose method returned nothing answers \<^verbatim>\<open>None\<close>: the same revert.
\<close>

lemma live_migration_prepare_returns_None:
  "live_migration
     (sim_env (row_in RUNNING None) [''instance-1''] (reports RUNNING) no_failure
        (peer_value PNone (PBool True)))
     (config_with 30) admin_context ''i-1'' ''host-b'' [] =
     (Inr (),
      [DbQueueGetFor admin_context ''compute'' ''host-b'',
       RpcCall admin_context ''compute.host-b'' (PreLiveMigration ''i-1'' ''host-b''),
       Log ERROR ''Live migration failed(err at %s)'',
       DbInstanceSetState admin_context ''i-1'' RUNNING (Some ''running'')])"
  by (simp add: live_migration_def io_defs sim_defs equals_True_def)

text \<open>
  The polling loop. While the answers of the peer are false the loop asks once for each
  element of \<open>timeout_count\<close> and sleeps one second after each answer; it leaves with the
  first answer that is true, without sleeping.
\<close>

lemma length_range_py: "length (range_py n) = nat n"
  by (simp add: range_py_def)

lemma poll_rounds_0: "poll_rounds c tp i 0 = []"
  by (simp add: poll_rounds_def)

lemma poll_rounds_Suc:
  "poll_rounds c tp i (Suc n) =
     RpcCall c tp (NwfilterForInstanceExists i) # Sleep 1 # poll_rounds c tp i n"
  by (simp add: poll_rounds_def poll_round_def)

lemma wait_nwfilter_never:
  assumes "\<forall>k<length xs. \<exists>v. resp_value env (t @ poll_rounds c tp i k)
             (RpcCall c tp (NwfilterForInstanceExists i)) = Inr v \<and> \<not> truthy v"
  shows "\<exists>v. wait_nwfilter env c tp i xs ret t = (Inr v, t @ poll_rounds c tp i (length xs)) \<and>
             (if xs = [] then v = ret else \<not> truthy v)"
  using assms
proof (induction xs arbitrary: t ret rule: rev_induct)
  case Nil
  show ?case by (simp add: wait_nwfilter.simps io_defs poll_rounds_0)
next
  case (snoc x xs)
  let ?rpc = "RpcCall c tp (NwfilterForInstanceExists i)"
  obtain v0 where first: "resp_value env t ?rpc = Inr v0" and falsy: "\<not> truthy v0"
    using snoc.prems [rule_format, of 0] by (auto simp: poll_rounds_0)
  have rest: "\<forall>k<length xs. \<exists>v. resp_value env ((t @ [?rpc, Sleep 1]) @ poll_rounds c tp i k) ?rpc
                = Inr v \<and> \<not> truthy v"
  proof (intro allI impI)
    fix k assume "k < length xs"
    then have "\<exists>v. resp_value env (t @ poll_rounds c tp i (Suc k)) ?rpc = Inr v \<and> \<not> truthy v"
      using snoc.prems by simp
    then show "\<exists>v. resp_value env ((t @ [?rpc, Sleep 1]) @ poll_rounds c tp i k) ?rpc = Inr v
                 \<and> \<not> truthy v"
      by (simp add: poll_rounds_Suc)
  qed
  have step: "wait_nwfilter env c tp i (xs @ [x]) ret t =
                wait_nwfilter env c tp i xs v0 (t @ [?rpc, Sleep 1])"
    using first falsy by (subst wait_nwfilter.simps) (simp add: io_defs)
  obtain v where v: "wait_nwfilter env c tp i xs v0 (t @ [?rpc, Sleep 1]) =
                       (Inr v, (t @ [?rpc, Sleep 1]) @ poll_rounds c tp i (length xs))"
      "if xs = [] then v = v0 else \<not> truthy v"
    using snoc.IH [OF rest, of v0] by blast
  have "\<not> truthy v"
    using v(2) falsy by (cases "xs = []") simp_all
  then show ?case
    unfolding step using v(1) by (simp add: poll_rounds_Suc)
qed

lemma wait_nwfilter_found:
  assumes "k < length xs"
    and "\<forall>j<k. \<exists>v. resp_value env (t @ poll_rounds c tp i j)
           (RpcCall c tp (NwfilterForInstanceExists i)) = Inr v \<and> \<not> truthy v"
    and "resp_value env (t @ poll_rounds c tp i k)
           (RpcCall c tp (NwfilterForInstanceExists i)) = Inr w"
    and "truthy w"
  shows "wait_nwfilter env c tp i xs ret t =
           (Inr w, t @ poll_rounds c tp i k @ [RpcCall c tp (NwfilterForInstanceExists i)])"
  using assms
proof (induction k arbitrary: xs t ret)
  case 0
  then show ?case
    by (subst wait_nwfilter.simps) (simp add: io_defs poll_rounds_0)
next
  case (Suc k)
  let ?rpc = "RpcCall c tp (NwfilterForInstanceExists i)"
  obtain v0 where first: "resp_value env t ?rpc = Inr v0" and falsy: "\<not> truthy v0"
    using Suc.prems(2) [rule_format, of 0] by (auto simp: poll_rounds_0)
  have len: "k < length (butlast xs)"
    using Suc.prems(1) by simp
  have rest: "\<forall>j<k. \<exists>v. resp_value env ((t @ [?rpc, Sleep 1]) @ poll_rounds c tp i j) ?rpc
                = Inr v \<and> \<not> truthy v"
  proof (intro allI impI)
    fix j assume "j < k"
    then have "\<exists>v. resp_value env (t @ poll_rounds c tp i (Suc j)) ?rpc = Inr v \<and> \<not> truthy v"
      using Suc.prems(2) by simp
    then show "\<exists>v. resp_value env ((t @ [?rpc, Sleep 1]) @ poll_rounds c tp i j) ?rpc = Inr v
                 \<and> \<not> truthy v"
      by (simp add: poll_rounds_Suc)
  qed
  have last: "resp_value env ((t @ [?rpc, Sleep 1]) @ poll_rounds c tp i k) ?rpc = Inr w"
    using Suc.prems(3) by (simp add: poll_rounds_Suc)
  have ne: "xs \<noteq> []"
    using Suc.prems(1) by auto
  have step: "wait_nwfilter env c tp i xs ret t =
                wait_nwfilter env c tp i (butlast xs) v0 (t @ [?rpc, Sleep 1])"
    using first falsy ne by (subst wait_nwfilter.simps) (simp add: io_defs)
  show ?case
    unfolding step using Suc.IH [OF len rest last Suc.prems(4), of v0]
    by (simp add: poll_rounds_Suc)
qed

text \<open>
  With a positive timeout and a peer whose filter never shows, \<^verbatim>\<open>live_migration\<close> polls
  as many times as the timeout says, logs the timeout and returns; it writes nothing to
  the database and does not call the driver.
\<close>

lemma live_migration_poll_timeout:
  fixes env cfg c i dest t topic ret
  defines "t2 \<equiv> t @ [DbQueueGetFor c (compute_topic cfg) dest,
                     RpcCall c topic (PreLiveMigration i dest)]"
  assumes "resp_string env t (DbQueueGetFor c (compute_topic cfg) dest) = Inr topic"
    and "resp_value env (t @ [DbQueueGetFor c (compute_topic cfg) dest])
           (RpcCall c topic (PreLiveMigration i dest)) = Inr ret"
    and "equals_True ret"
    and "0 < live_migration_timeout cfg"
    and "\<forall>k<nat (live_migration_timeout cfg).
           \<exists>v. resp_value env (t2 @ poll_rounds c topic i k)
                 (RpcCall c topic (NwfilterForInstanceExists i)) = Inr v \<and> \<not> truthy v"
  shows "live_migration env cfg c i dest t =
           (Inr (), t2 @ poll_rounds c topic i (nat (live_migration_timeout cfg)) @
                    [Log ERROR ''Timeout for pre_live_migration at %s''])"
proof -
  let ?xs = "range_py (live_migration_timeout cfg)"
  have ne: "?xs \<noteq> []"
    using assms(5) length_range_py [of "live_migration_timeout cfg"] by auto
  have "\<exists>v. wait_nwfilter env c topic i ?xs ret t2 =
          (Inr v, t2 @ poll_rounds c topic i (length ?xs)) \<and>
          (if ?xs = [] then v = ret else \<not> truthy v)"
    by (rule wait_nwfilter_never) (use assms(6) in \<open>simp add: length_range_py\<close>)
  then obtain v where v: "wait_nwfilter env c topic i ?xs ret t2 =
          (Inr v, t2 @ poll_rounds c topic i (nat (live_migration_timeout cfg)))" "\<not> truthy v"
    using ne by (auto simp: length_range_py)
  then show ?thesis
    using assms(2,3,4) unfolding t2_def by (simp add: live_migration_def io_defs)
qed

lemma poll_rounds_quiet:
  "\<forall>e\<in>set (poll_rounds c tp i n). \<not> is_db_write e \<and> \<not> is_driver_live_migration e"
  by (induction n)
     (simp_all add: poll_rounds_0 poll_rounds_Suc is_db_write_def is_driver_live_migration_def)

lemma live_migration_poll_timeout_no_revert:
  assumes "resp_string env t (DbQueueGetFor c (compute_topic cfg) dest) = Inr topic"
    and "resp_value env (t @ [DbQueueGetFor c (compute_topic cfg) dest])
           (RpcCall c topic (PreLiveMigration i dest)) = Inr ret"
    and "equals_True ret"
    and "0 < live_migration_timeout cfg"
    and "\<forall>k<nat (live_migration_timeout cfg).
           \<exists>v. resp_value env
             (t @ [DbQueueGetFor c (compute_topic cfg) dest,
                   RpcCall c topic (PreLiveMigration i dest)] @ poll_rounds c topic i k)
             (RpcCall c topic (NwfilterForInstanceExists i)) = Inr v \<and> \<not> truthy v"
  shows "\<exists>es. live_migration env cfg c i dest t = (Inr (), t @ es) \<and>
              (\<forall>e\<in>set es. \<not> is_db_write e \<and> \<not> is_driver_live_migration e) \<and>
              length (filter (\<lambda>e. e = RpcCall c topic (NwfilterForInstanceExists i)) es) =
                nat (live_migration_timeout cfg)"
proof -
  let ?n = "nat (live_migration_timeout cfg)"
  let ?es = "[DbQueueGetFor c (compute_topic cfg) dest,
              RpcCall c topic (PreLiveMigration i dest)] @ poll_rounds c topic i ?n @
             [Log ERROR ''Timeout for pre_live_migration at %s'']"
  have run: "live_migration env cfg c i dest t = (Inr (), t @ ?es)"
    using live_migration_poll_timeout [OF assms(1,2,3,4)] assms(5) by simp
  have quiet: "\<forall>e\<in>set ?es. \<not> is_db_write e \<and> \<not> is_driver_live_migration e"
    using poll_rounds_quiet [of c topic i ?n]
    by (auto simp: is_db_write_def is_driver_live_migration_def)
  have count: "length (filter (\<lambda>e. e = RpcCall c topic (NwfilterForInstanceExists i))
                 (poll_rounds c topic i m)) = m" for m
    by (induction m) (simp_all add: poll_rounds_0 poll_rounds_Suc)
  have "length (filter (\<lambda>e. e = RpcCall c topic (NwfilterForInstanceExists i)) ?es) = ?n"
    using count [of ?n] by simp
  with run quiet show ?thesis by blast
qed

text \<open>
  A timeout of two seconds: two polls, two sleeps, and the timeout is logged.
\<close>

lemma live_migration_two_polls:
  "live_migration
     (sim_env (row_in RUNNING None) [''instance-1''] (reports RUNNING) no_failure
        (peer True False))
     (config_with 2) admin_context ''i-1'' ''host-b'' [] =
     (Inr (),
      [DbQueueGetFor admin_context ''compute'' ''host-b'',
       RpcCall admin_context ''compute.host-b'' (PreLiveMigration ''i-1'' ''host-b''),
       RpcCall admin_context ''compute.host-b'' (NwfilterForInstanceExists ''i-1''),
       Sleep 1,
       RpcCall admin_context ''compute.host-b'' (NwfilterForInstanceExists ''i-1''),
       Sleep 1,
       Log ERROR ''Timeout for pre_live_migration at %s''])"
  using live_migration_poll_timeout
    [where env = "sim_env (row_in RUNNING None) [''instance-1''] (reports RUNNING) no_failure
                    (peer True False)"
       and t = "[]" and c = admin_context and i = "''i-1''" and dest = "''host-b''"
       and cfg = "config_with 2" and topic = "''compute.host-b''" and ret = "PBool True"]
  by (simp add: sim_defs poll_rounds_def poll_round_def numeral_2_eq_2 truthy_def
        equals_True_def)

text \<open>
  When the filter shows at poll \<open>k\<close>, before the timeout, the polling stops there and
  the driver is asked to migrate.
\<close>

lemma live_migration_poll_found:
  fixes env cfg c i dest t topic k inst ret w answer
  defines "t2 \<equiv> t @ [DbQueueGetFor c (compute_topic cfg) dest,
                     RpcCall c topic (PreLiveMigration i dest)]"
  defines "t3 \<equiv> t2 @ poll_rounds c topic i k @ [RpcCall c topic (NwfilterForInstanceExists i)]"
  assumes "resp_string env t (DbQueueGetFor c (compute_topic cfg) dest) = Inr topic"
    and "resp_value env (t @ [DbQueueGetFor c (compute_topic cfg) dest])
           (RpcCall c topic (PreLiveMigration i dest)) = Inr ret"
    and "equals_True ret"
    and "k < nat (live_migration_timeout cfg)"
    and "\<forall>j<k. \<exists>v. resp_value env (t2 @ poll_rounds c topic i j)
             (RpcCall c topic (NwfilterForInstanceExists i)) = Inr v \<and> \<not> truthy v"
    and "resp_value env (t2 @ poll_rounds c topic i k)
             (RpcCall c topic (NwfilterForInstanceExists i)) = Inr w"
    and "truthy w"
    and "resp_instance env t3 (DbInstanceGet c i) = Inr inst"
    and "resp_value env (t3 @ [DbInstanceGet c i]) (DriverLiveMigration inst dest) = Inr answer"
  shows "live_migration env cfg c i dest t =
           (Inr (),
            t3 @ [DbInstanceGet c i, DriverLiveMigration inst dest] @
            (if truthy answer then [] else [Log DEBUG ''Fail to live migration'']))"
proof -
  let ?xs = "range_py (live_migration_timeout cfg)"
  have "wait_nwfilter env c topic i ?xs ret t2 = (Inr w, t3)"
    unfolding t3_def
    by (rule wait_nwfilter_found) (use assms(6,7,8,9) in \<open>simp_all add: length_range_py\<close>)
  then show ?thesis
    using assms(3,4,5,9,10,11) unfolding t2_def t3_def
    by (simp add: live_migration_def io_defs)
qed

text \<open>
  Claim C4 as it was stated has the revert follow every answer other than \<^verbatim>\<open>True\<close>
  itself. The number \<^verbatim>\<open>1\<close> is another value, and \<^verbatim>\<open>True != 1\<close> is false in Python:
  with that answer nothing is reverted, the peer is polled and the driver is asked to
  migrate.
\<close>

theorem live_migration_one_counts_as_prepared:
  "resp_value
     (sim_env (row_in RUNNING None) [''instance-1''] (reports RUNNING) no_failure
        (peer_value (PInt 1) (PBool True)))
     [DbQueueGetFor admin_context ''compute'' ''host-b'']
     (RpcCall admin_context ''compute.host-b'' (PreLiveMigration ''i-1'' ''host-b'')) =
     Inr (PInt 1) \<and>
   PInt 1 \<noteq> PBool True \<and>
   live_migration
     (sim_env (row_in RUNNING None) [''instance-1''] (reports RUNNING) no_failure
        (peer_value (PInt 1) (PBool True)))
     (config_with 30) admin_context ''i-1'' ''host-b'' [] =
     (Inr (),
      [DbQueueGetFor admin_context ''compute'' ''host-b'',
       RpcCall admin_context ''compute.host-b'' (PreLiveMigration ''i-1'' ''host-b''),
       RpcCall admin_context ''compute.host-b'' (NwfilterForInstanceExists ''i-1''),
       DbInstanceGet admin_context ''i-1'',
       DriverLiveMigration (row_in RUNNING None) ''host-b''])"
  using live_migration_poll_found
    [where env = "sim_env (row_in RUNNING None) [''instance-1''] (reports RUNNING) no_failure
                    (peer_value (PInt 1) (PBool True))"
       and t = "[]" and c = admin_context and i = "''i-1''" and dest = "''host-b''"
       and cfg = "config_with 30" and topic = "''compute.host-b''" and ret = "PInt 1"
       and k = 0 and w = "PBool True" and inst = "row_in RUNNING None"
       and answer = "PBool True"]
  by (simp add: sim_defs poll_rounds_0 truthy_def equals_True_def)

text \<open>
  Claim C5 has the migration abort, with no call of the driver, whenever no poll returns
  \<open>True\<close>. With a timeout of \<open>0\<close> the loop body never runs and \<open>ret\<close> still holds the
  answer of \<^verbatim>\<open>pre_live_migration\<close>: the peer is never asked for its filter (it would
  answer \<open>False\<close> here), and the driver is asked to migrate.
\<close>

theorem live_migration_zero_timeout_migrates:
  "live_migration
     (sim_env (row_in RUNNING None) [''instance-1''] (reports RUNNING) no_failure
        (peer True False))
     (config_with 0) admin_context ''i-1'' ''host-b'' [] =
     (Inr (),
      [DbQueueGetFor admin_context ''compute'' ''host-b'',
       RpcCall admin_context ''compute.host-b'' (PreLiveMigration ''i-1'' ''host-b''),
       DbInstanceGet admin_context ''i-1'',
       DriverLiveMigration (row_in RUNNING None) ''host-b''])"
  by (simp add: live_migration_def range_py_def wait_nwfilter.simps io_defs sim_defs
        truthy_def equals_True_def)

end
